theory Spec2Isabelle
  imports Complex_Main
begin

section \<open>Hybrid OCR routing: classifier, router and metrics\<close>

text \<open>
  A shallow embedding of the hybrid OCR recipe: \<open>SimpleReceiptDetector\<close> (the classifier)
  and \<open>HybridOcrStrategy\<close> (the router with its attempt history and metrics).

  Conventions of the embedding.
  \<^item> A JavaScript \<open>number\<close> that the code only adds, multiplies and compares is an exact
    \<open>real\<close>; counters that the code only increments are \<open>nat\<close>. Rounding of IEEE doubles is
    not modelled.
  \<^item> A quotient is a value of type \<open>number\<close>, which keeps \<open>NaN\<close> and the infinities that a
    JavaScript division by zero produces.
  \<^item> Strings are byte strings; text outside ASCII is written as its UTF-8 bytes.
  \<^item> A rejected promise (a thrown error) is the \<open>Inl\<close> branch of a sum.
  \<^item> Console output is left out.
\<close>

subsection \<open>JavaScript helpers\<close>

datatype number = Num real | NaN | PosInfinity | NegInfinity

text \<open>The operator \<open>/\<close> of JavaScript on two finite numbers.\<close>

definition js_div :: "real \<Rightarrow> real \<Rightarrow> number" where
  "js_div a b =
     (if b \<noteq> 0 then Num (a / b)
      else if a = 0 then NaN
      else if 0 < a then PosInfinity else NegInfinity)"

text \<open>\<open>String.prototype.split\<close> with a one-character separator.\<close>

fun js_split :: "char \<Rightarrow> string \<Rightarrow> string list" where
  "js_split sep [] = [[]]"
| "js_split sep (c # cs) =
     (if c = sep then [] # js_split sep cs
      else (case js_split sep cs of
              [] \<Rightarrow> [[c]]
            | w # ws \<Rightarrow> (c # w) # ws))"

text \<open>\<open>String.prototype.toLowerCase\<close> on ASCII letters; other bytes are kept.\<close>

definition lowerChar :: "char \<Rightarrow> char" where
  "lowerChar c =
     (case map_of (zip ''ABCDEFGHIJKLMNOPQRSTUVWXYZ'' ''abcdefghijklmnopqrstuvwxyz'') c of
        None \<Rightarrow> c
      | Some l \<Rightarrow> l)"

definition toLowerCase :: "string \<Rightarrow> string" where
  "toLowerCase s = map lowerChar s"

text \<open>\<open>String.prototype.includes\<close>.\<close>

fun js_includes :: "string \<Rightarrow> string \<Rightarrow> bool" where
  "js_includes [] needle = (needle = [])"
| "js_includes (c # cs) needle =
     (take (length needle) (c # cs) = needle \<or> js_includes cs needle)"

text \<open>\<open>Array.prototype.join\<close>.\<close>

fun join :: "string \<Rightarrow> string list \<Rightarrow> string" where
  "join sep [] = []"
| "join sep [x] = x"
| "join sep (x # y # ys) = x @ sep @ join sep (y # ys)"

subsection \<open>Types of the recipe\<close>

record Features =
  brightness :: real
  textDensity :: real
  hasStandardFormat :: bool
  hasHandwriting :: bool
  hasFading :: bool

record ReceiptClassification =
  isSimple :: bool
  confidence :: real
  reason :: "string option"
  features :: "Features option"

subsection \<open>SimpleReceiptDetector\<close>

record DetectorConfig =
  brightnessThreshold :: real
  textDensityThreshold :: real
  minConfidence :: real

text \<open>\<open>Partial<config>\<close>: every key may be missing.\<close>

record PartialDetectorConfig =
  brightnessThreshold_opt :: "real option"
  textDensityThreshold_opt :: "real option"
  minConfidence_opt :: "real option"

record SimpleReceiptDetector =
  config :: DetectorConfig

definition orDefault :: "'a option \<Rightarrow> 'a \<Rightarrow> 'a" where
  "orDefault override dflt = (case override of None \<Rightarrow> dflt | Some v \<Rightarrow> v)"

text \<open>The constructor: the defaults, then the keys of the argument spread over them.\<close>

definition newSimpleReceiptDetector :: "PartialDetectorConfig \<Rightarrow> SimpleReceiptDetector" where
  "newSimpleReceiptDetector c =
     \<lparr>config =
        \<lparr>brightnessThreshold = orDefault (brightnessThreshold_opt c) 0.6,
         textDensityThreshold = orDefault (textDensityThreshold_opt c) 0.4,
         minConfidence = orDefault (minConfidence_opt c) 0.85\<rparr>\<rparr>"

definition noDetectorOverrides :: PartialDetectorConfig where
  "noDetectorOverrides =
     \<lparr>brightnessThreshold_opt = None, textDensityThreshold_opt = None,
      minConfidence_opt = None\<rparr>"

text \<open>
  \<open>extractFeatures\<close>, the mock that reads the receipt kind from the second \<open>-\<close>-separated
  field of the image name, as the example program names its images. (The repository holds
  a second copy of the detector whose \<open>extractFeatures\<close> derives the brightness from the
  length of the image string; the decision logic below is the same in both.)
\<close>

definition extractFeatures :: "string \<Rightarrow> Features" where
  "extractFeatures imageBase64 =
     (let imageName =
            (case js_split CHR ''-'' imageBase64 of
               _ # name # _ \<Rightarrow> toLowerCase name
             | _ \<Rightarrow> []);
          known = (js_includes imageName ''7eleven'' \<or> js_includes imageName ''tesco'');
          poor = (js_includes imageName ''handwritten'' \<or> js_includes imageName ''faded'')
      in \<lparr>brightness = (if known then 0.85 else if poor then 0.4 else 0.7),
          textDensity = 0.7,
          hasStandardFormat = known,
          hasHandwriting = js_includes imageName ''handwritten'',
          hasFading = js_includes imageName ''faded''\<rparr>)"

definition evaluateSimplicity :: "SimpleReceiptDetector \<Rightarrow> Features option \<Rightarrow> bool" where
  "evaluateSimplicity det fo =
     (case fo of
        None \<Rightarrow> False
      | Some f \<Rightarrow>
          brightness f > brightnessThreshold (SimpleReceiptDetector.config det)
          \<and> hasStandardFormat f
          \<and> \<not> hasHandwriting f
          \<and> \<not> hasFading f)"

definition calculateConfidence :: "Features option \<Rightarrow> real" where
  "calculateConfidence fo =
     (case fo of
        None \<Rightarrow> 0
      | Some f \<Rightarrow>
          (let c0 = 0;
               c1 = c0 + brightness f * 0.4;
               c2 = c1 + textDensity f * 0.3;
               c3 = c2 + (if hasStandardFormat f then 1 else 0) * 0.3;
               c4 = (if hasHandwriting f then c3 * 0.5 else c3);
               c5 = (if hasFading f then c4 * 0.7 else c4)
           in min c5 1))"

definition generateReason :: "SimpleReceiptDetector \<Rightarrow> Features option \<Rightarrow> bool \<Rightarrow> string" where
  "generateReason det fo simple =
     (case fo of
        None \<Rightarrow> ''No features detected''
      | Some f \<Rightarrow>
          if simple then ''Clear, standard format receipt - suitable for Groq parsing''
          else
            (let reasons =
                   (if brightness f < brightnessThreshold (SimpleReceiptDetector.config det)
                    then [''low brightness''] else [])
                   @ (if \<not> hasStandardFormat f then [''non-standard format''] else [])
                   @ (if hasHandwriting f then [''handwritten''] else [])
                   @ (if hasFading f then [''faded text''] else [])
             in ''Complex receipt ('' @ join '', '' reasons @ '') - using Claude Vision''))"

text \<open>
  \<open>classify\<close> is \<open>extractFeatures\<close> followed by the decision logic; \<open>verdict\<close> is that
  decision logic, on the feature snapshot.
\<close>

definition verdict :: "SimpleReceiptDetector \<Rightarrow> Features \<Rightarrow> ReceiptClassification" where
  "verdict det f =
     (let simple = evaluateSimplicity det (Some f);
          conf = calculateConfidence (Some f)
      in \<lparr>isSimple = simple,
          confidence = conf,
          reason = Some (generateReason det (Some f) simple),
          features = Some f\<rparr>)"

definition classify :: "SimpleReceiptDetector \<Rightarrow> string \<Rightarrow> ReceiptClassification" where
  "classify det imageBase64 = verdict det (extractFeatures imageBase64)"

subsection \<open>Results, attempts, metrics and configuration\<close>

record ReceiptLineItem =
  description :: string
  quantity :: real
  unitPriceSatang :: int
  totalSatang :: int

record OcrResult =
  amountSatang :: int
  currency :: string
  vatAmountSatang :: "int option"
  vendorName :: "string option"
  issueDate :: "string option"
  rawText :: "string option"
  confidence :: "real option"
  lineItems :: "ReceiptLineItem list option"

record OcrInput =
  correlationId :: string
  imageBase64 :: string
  imageFormat :: "string option"

datatype provider = Claude | Groq | Paddle

record OcrAttempt =
  provider :: provider
  success :: bool
  cost :: real
  duration :: nat
  result :: "OcrResult option"
  error :: "string option"

record HybridMetrics =
  totalReceipts :: nat
  simpleCount :: nat
  complexCount :: nat
  groqSuccessRate :: number
  claudeFallbackRate :: nat
  totalCost :: real
  avgCostPerReceipt :: number
  savingsVsClaudeOnly :: real
  manualReviewRate :: number

record HybridStrategyConfig =
  simpleConfidenceThreshold :: real
  enableFallback :: bool
  maxGroqRetries :: nat
  enableMetrics :: bool

record PartialStrategyConfig =
  simpleConfidenceThreshold_opt :: "real option"
  enableFallback_opt :: "bool option"
  maxGroqRetries_opt :: "nat option"
  enableMetrics_opt :: "bool option"

subsection \<open>The two adapters\<close>

text \<open>
  The adapters are the boundary of the router. A call either throws an \<open>Error\<close> or
  resolves to a result; the second argument of \<open>Resolves\<close> is the time in milliseconds
  that the router measures around the call with \<open>Date.now()\<close>. The behaviour of both
  adapters is an argument of every request, so that an adapter may answer the same
  input differently in two requests.
\<close>

datatype js_error = Error string

fun message :: "js_error \<Rightarrow> string" where
  "message (Error m) = m"

datatype reply = Throws js_error | Resolves OcrResult nat

record adapters =
  parseReceiptText :: "string \<Rightarrow> string \<Rightarrow> reply"
  extractReceiptFromImage :: "OcrInput \<Rightarrow> reply"

subsection \<open>HybridOcrStrategy\<close>

record HybridOcrStrategy =
  detector :: SimpleReceiptDetector
  config :: HybridStrategyConfig
  metrics :: HybridMetrics
  attempts :: "OcrAttempt list"

text \<open>
  What one call of a method that awaits the adapters leaves behind: the value it returns
  or the error it throws, the router afterwards, and the adapters it invoked, in order.
\<close>

record run =
  outcome :: "js_error + OcrResult"
  self :: HybridOcrStrategy
  calls :: "provider list"

definition initMetrics :: HybridMetrics where
  "initMetrics =
     \<lparr>totalReceipts = 0,
      simpleCount = 0,
      complexCount = 0,
      groqSuccessRate = Num 0,
      claudeFallbackRate = 0,
      totalCost = 0,
      avgCostPerReceipt = Num 0,
      savingsVsClaudeOnly = 0,
      manualReviewRate = Num 0\<rparr>"

definition noOverrides :: PartialStrategyConfig where
  "noOverrides =
     \<lparr>simpleConfidenceThreshold_opt = None, enableFallback_opt = None,
      maxGroqRetries_opt = None, enableMetrics_opt = None\<rparr>"

text \<open>The constructor; a missing \<open>config\<close> argument is \<open>noOverrides\<close>.\<close>

definition newHybridOcrStrategy :: "PartialStrategyConfig \<Rightarrow> HybridOcrStrategy" where
  "newHybridOcrStrategy c =
     \<lparr>detector = newSimpleReceiptDetector noDetectorOverrides,
      config =
        \<lparr>simpleConfidenceThreshold = orDefault (simpleConfidenceThreshold_opt c) 0.85,
         enableFallback = orDefault (enableFallback_opt c) True,
         maxGroqRetries = orDefault (maxGroqRetries_opt c) 1,
         enableMetrics = orDefault (enableMetrics_opt c) True\<rparr>,
      metrics = initMetrics,
      attempts = []\<rparr>"

definition lowConfidence :: "OcrAttempt \<Rightarrow> bool" where
  "lowConfidence a =
     (case result a of
        None \<Rightarrow> False
      | Some r \<Rightarrow> (case OcrResult.confidence r of None \<Rightarrow> 0 | Some c \<Rightarrow> c) < 0.95)"

definition updateMetrics :: "HybridOcrStrategy \<Rightarrow> HybridOcrStrategy" where
  "updateMetrics s =
     (let groqAttempts = filter (\<lambda>a. provider a = Groq) (attempts s);
          groqSuccess = length (filter success groqAttempts);
          m1 = (metrics s)\<lparr>groqSuccessRate :=
                 (if length groqAttempts > 0
                  then js_div (real groqSuccess) (real (length groqAttempts))
                  else Num 0)\<rparr>;
          m2 = m1\<lparr>avgCostPerReceipt :=
                 (if totalReceipts m1 > 0
                  then js_div (totalCost m1) (real (totalReceipts m1))
                  else Num 0)\<rparr>;
          claudeOnlyCost = real (totalReceipts m2) * 0.50;
          m3 = m2\<lparr>savingsVsClaudeOnly := claudeOnlyCost - totalCost m2\<rparr>;
          lowConfidenceCount = length (filter lowConfidence (attempts s));
          m4 = m3\<lparr>manualReviewRate :=
                 (if totalReceipts m3 > 0
                  then js_div (real lowConfidenceCount) (real (totalReceipts m3))
                  else Num 0)\<rparr>
      in s\<lparr>metrics := m4\<rparr>)"

definition recordAttempt :: "OcrAttempt \<Rightarrow> HybridOcrStrategy \<Rightarrow> HybridOcrStrategy" where
  "recordAttempt attempt s =
     (if \<not> enableMetrics (config s) then s
      else
        (let s1 = s\<lparr>attempts := attempts s @ [attempt]\<rparr>;
             s2 = s1\<lparr>metrics := (metrics s1)\<lparr>totalReceipts := totalReceipts (metrics s1) + 1\<rparr>\<rparr>;
             s3 = s2\<lparr>metrics := (metrics s2)\<lparr>totalCost := totalCost (metrics s2) + cost attempt\<rparr>\<rparr>
         in updateMetrics s3))"

definition getMetrics :: "HybridOcrStrategy \<Rightarrow> HybridMetrics" where
  "getMetrics s = metrics s"

definition getAttempts :: "HybridOcrStrategy \<Rightarrow> OcrAttempt list" where
  "getAttempts s = attempts s"

definition resetMetrics :: "HybridOcrStrategy \<Rightarrow> HybridOcrStrategy" where
  "resetMetrics s = s\<lparr>metrics := initMetrics, attempts := []\<rparr>"

definition classifyReceipt :: "HybridOcrStrategy \<Rightarrow> string \<Rightarrow> ReceiptClassification" where
  "classifyReceipt s img = classify (detector s) img"

text \<open>The mock raw text of \<open>extractRawText\<close>, line by line.\<close>

definition utf8 :: "nat list \<Rightarrow> string" where
  "utf8 bytes = map char_of bytes"

definition rule16 :: string where
  "rule16 = concat (replicate 16 (utf8 [226, 148, 128]))"

definition mockRawLines :: "string list" where
  "mockRawLines =
     [''7-ELEVEN'',
      utf8 [224, 184, 170, 224, 184, 178, 224, 184, 130, 224, 184, 178] @ '' 12345'',
      utf8 [224, 184, 129, 224, 184, 163, 224, 184, 184, 224, 184, 135, 224, 185, 128,
            224, 184, 151, 224, 184, 158, 224, 184, 175],
      [],
      utf8 [224, 184, 129, 224, 184, 178, 224, 185, 129, 224, 184, 159]
        @ ''            45.00'',
      utf8 [224, 184, 130, 224, 184, 153, 224, 184, 161, 224, 184, 155, 224, 184, 177,
            224, 184, 135] @ ''          35.00'',
      rule16,
      utf8 [224, 184, 163, 224, 184, 167, 224, 184, 161] @ ''             80.00'',
      utf8 [224, 184, 160, 224, 184, 178, 224, 184, 169, 224, 184, 181]
        @ '' 7%          5.60'',
      rule16,
      utf8 [224, 184, 163, 224, 184, 167, 224, 184, 161, 224, 184, 151, 224, 184, 177,
            224, 185, 137, 224, 184, 135, 224, 184, 170, 224, 184, 180, 224, 185, 137,
            224, 184, 153] @ ''      85.60'',
      [],
      utf8 [224, 184, 167, 224, 184, 177, 224, 184, 153, 224, 184, 151, 224, 184, 181,
            224, 185, 136] @ '' 22/01/2569'',
      utf8 [224, 185, 128, 224, 184, 167, 224, 184, 165, 224, 184, 178] @ '' 14:35'']"

definition extractRawText :: "string \<Rightarrow> string" where
  "extractRawText img = join [CHR 0x0A] mockRawLines"

definition processComplexReceipt ::
  "adapters \<Rightarrow> OcrInput \<Rightarrow> ReceiptClassification \<Rightarrow> HybridOcrStrategy \<Rightarrow> run" where
  "processComplexReceipt ad input classification s =
     (let s1 = s\<lparr>metrics := (metrics s)\<lparr>complexCount := complexCount (metrics s) + 1\<rparr>\<rparr>
      in case extractReceiptFromImage ad input of
           Throws e \<Rightarrow> \<lparr>outcome = Inl e, self = s1, calls = [Claude]\<rparr>
         | Resolves res ms \<Rightarrow>
             \<lparr>outcome = Inr res,
              self = recordAttempt
                       \<lparr>provider = Claude, success = True, cost = 0.50, duration = ms,
                        result = Some res, error = None\<rparr> s1,
              calls = [Claude]\<rparr>)"

definition processSimpleReceipt ::
  "adapters \<Rightarrow> OcrInput \<Rightarrow> ReceiptClassification \<Rightarrow> HybridOcrStrategy \<Rightarrow> run" where
  "processSimpleReceipt ad input classification s =
     (let s1 = s\<lparr>metrics := (metrics s)\<lparr>simpleCount := simpleCount (metrics s) + 1\<rparr>\<rparr>;
          text = extractRawText (imageBase64 input)
      in case parseReceiptText ad text (correlationId input) of
           Resolves res ms \<Rightarrow>
             \<lparr>outcome = Inr res,
              self = recordAttempt
                       \<lparr>provider = Groq, success = True, cost = 0.05, duration = ms,
                        result = Some res, error = None\<rparr> s1,
              calls = [Groq]\<rparr>
         | Throws e \<Rightarrow>
             (let s2 = recordAttempt
                         \<lparr>provider = Groq, success = False, cost = 0, duration = 0,
                          result = None, error = Some (message e)\<rparr> s1
              in if enableFallback (config s2)
                 then
                   (let s3 = s2\<lparr>metrics := (metrics s2)
                                 \<lparr>claudeFallbackRate := claudeFallbackRate (metrics s2) + 1\<rparr>\<rparr>;
                        r = processComplexReceipt ad input classification s3
                    in r\<lparr>calls := Groq # calls r\<rparr>)
                 else \<lparr>outcome = Inl e, self = s2, calls = [Groq]\<rparr>))"

text \<open>The routing test of \<open>extractReceipt\<close>.\<close>

definition routesToGroq :: "HybridOcrStrategy \<Rightarrow> ReceiptClassification \<Rightarrow> bool" where
  "routesToGroq s classification =
     (isSimple classification
      \<and> ReceiptClassification.confidence classification
          \<ge> simpleConfidenceThreshold (config s))"

definition extractReceipt :: "adapters \<Rightarrow> OcrInput \<Rightarrow> HybridOcrStrategy \<Rightarrow> run" where
  "extractReceipt ad input s =
     (let classification = classifyReceipt s (imageBase64 input)
      in if routesToGroq s classification
         then processSimpleReceipt ad input classification s
         else processComplexReceipt ad input classification s)"

text \<open>
  A caller that awaits one request after the other and goes on after a failure.
\<close>

fun extractAll :: "(adapters \<times> OcrInput) list \<Rightarrow> HybridOcrStrategy \<Rightarrow> HybridOcrStrategy" where
  "extractAll [] s = s"
| "extractAll (r # rs) s = extractAll rs (self (extractReceipt (fst r) (snd r) s))"

subsection \<open>Reference notions for the classifier\<close>

text \<open>
  The confidence as the specification words it: the weighted sum of the three signals,
  times the penalties, clamped to the unit interval.
\<close>

definition weightedSum :: "Features \<Rightarrow> real" where
  "weightedSum f =
     brightness f * 0.4 + textDensity f * 0.3
     + (if hasStandardFormat f then 1 else 0) * 0.3"

definition penalised :: "Features \<Rightarrow> real" where
  "penalised f =
     weightedSum f * (if hasHandwriting f then 0.5 else 1)
                   * (if hasFading f then 0.7 else 1)"

definition clamp01 :: "real \<Rightarrow> real" where
  "clamp01 x = max 0 (min 1 x)"

text \<open>The range that the data model gives the two estimates of a feature snapshot.\<close>

definition estimatesInRange :: "Features \<Rightarrow> bool" where
  "estimatesInRange f =
     (0 \<le> brightness f \<and> brightness f \<le> 1 \<and> 0 \<le> textDensity f \<and> textDensity f \<le> 1)"

definition defaultDetector :: SimpleReceiptDetector where
  "defaultDetector = newSimpleReceiptDetector noDetectorOverrides"

text \<open>Scenario A of the specification, and two more snapshots.\<close>

definition scenarioA :: Features where
  "scenarioA =
     \<lparr>brightness = 0.85, textDensity = 0.7, hasStandardFormat = True,
      hasHandwriting = False, hasFading = False\<rparr>"

definition fadedNote :: Features where
  "fadedNote =
     \<lparr>brightness = 0.4, textDensity = 0.7, hasStandardFormat = False,
      hasHandwriting = True, hasFading = True\<rparr>"

subsection \<open>Reference notions and sample data for the router\<close>

definition isNum :: "number \<Rightarrow> bool" where
  "isNum n = (case n of Num _ \<Rightarrow> True | _ \<Rightarrow> False)"

text \<open>The two attempts that the router writes for a failed and for a successful call.\<close>

definition groqFailed :: "js_error \<Rightarrow> OcrAttempt" where
  "groqFailed e =
     \<lparr>provider = Groq, success = False, cost = 0, duration = 0,
      result = None, error = Some (message e)\<rparr>"

definition claudeSucceeded :: "OcrResult \<Rightarrow> nat \<Rightarrow> OcrAttempt" where
  "claudeSucceeded res ms =
     \<lparr>provider = Claude, success = True, cost = 0.50, duration = ms,
      result = Some res, error = None\<rparr>"

text \<open>A router as the constructor leaves it, under four configurations.\<close>

definition freshRouter :: HybridOcrStrategy where
  "freshRouter = newHybridOcrStrategy noOverrides"

definition metricsOffRouter :: HybridOcrStrategy where
  "metricsOffRouter = newHybridOcrStrategy (noOverrides\<lparr>enableMetrics_opt := Some False\<rparr>)"

definition fallbackOffRouter :: HybridOcrStrategy where
  "fallbackOffRouter = newHybridOcrStrategy (noOverrides\<lparr>enableFallback_opt := Some False\<rparr>)"

definition bareRouter :: HybridOcrStrategy where
  "bareRouter =
     newHybridOcrStrategy
       (noOverrides\<lparr>enableFallback_opt := Some False, enableMetrics_opt := Some False\<rparr>)"

text \<open>Two requests of the example program and the results of the two mock adapters.\<close>

definition simpleInput :: OcrInput where
  "simpleInput =
     \<lparr>correlationId = ''001'', imageBase64 = ''mock-7eleven-receipt'', imageFormat = None\<rparr>"

definition complexInput :: OcrInput where
  "complexInput =
     \<lparr>correlationId = ''004'', imageBase64 = ''mock-handwritten-receipt'',
      imageFormat = None\<rparr>"

definition groqResult :: OcrResult where
  "groqResult =
     \<lparr>amountSatang = 8560, currency = ''THB'', vatAmountSatang = Some 560,
      vendorName = Some ''7-Eleven Mock'', issueDate = Some ''2026-01-22'',
      rawText = Some (extractRawText []), confidence = Some 0.88, lineItems = None\<rparr>"

definition claudeResult :: OcrResult where
  "claudeResult =
     \<lparr>amountSatang = 35000, currency = ''THB'', vatAmountSatang = Some 2280,
      vendorName = None, issueDate = None, rawText = None,
      confidence = Some 0.95, lineItems = None\<rparr>"

text \<open>Adapters: both answer; Groq is down; Claude is down; both are down.\<close>

definition bothUp :: adapters where
  "bothUp =
     \<lparr>parseReceiptText = (\<lambda>text cid. Resolves groqResult 100),
      extractReceiptFromImage = (\<lambda>input. Resolves claudeResult 500)\<rparr>"

definition groqDown :: adapters where
  "groqDown =
     \<lparr>parseReceiptText = (\<lambda>text cid. Throws (Error ''Groq API error: 503'')),
      extractReceiptFromImage = (\<lambda>input. Resolves claudeResult 500)\<rparr>"

definition claudeDown :: adapters where
  "claudeDown =
     \<lparr>parseReceiptText = (\<lambda>text cid. Resolves groqResult 100),
      extractReceiptFromImage = (\<lambda>input. Throws (Error ''Claude API error: 529''))\<rparr>"

definition bothDown :: adapters where
  "bothDown =
     \<lparr>parseReceiptText = (\<lambda>text cid. Throws (Error ''Groq API error: 503'')),
      extractReceiptFromImage = (\<lambda>input. Throws (Error ''Claude API error: 529''))\<rparr>"


text \<open>
  A router that does not track metrics and whose history, totals and rates are as the
  constructor left them.
\<close>

definition idle :: "HybridOcrStrategy \<Rightarrow> bool" where
  "idle s =
     (\<not> enableMetrics (config s) \<and> attempts s = []
      \<and> totalReceipts (metrics s) = 0 \<and> totalCost (metrics s) = 0
      \<and> groqSuccessRate (metrics s) = Num 0 \<and> avgCostPerReceipt (metrics s) = Num 0
      \<and> savingsVsClaudeOnly (metrics s) = 0 \<and> manualReviewRate (metrics s) = Num 0)"

definition groqSucceeded :: "OcrResult \<Rightarrow> nat \<Rightarrow> OcrAttempt" where
  "groqSucceeded res ms =
     \<lparr>provider = Groq, success = True, cost = 0.05, duration = ms,
      result = Some res, error = None\<rparr>"

subsection \<open>Double-precision arithmetic\<close>

text \<open>
  A finite IEEE 754 binary64 number is \<open>Double m e\<close>, with the value \<open>m * 2 ^ e\<close>. Every
  operation computes the exact result and rounds it to a significand of 53 bits, to
  nearest and ties to even, as JavaScript does. The exponent is unbounded here: overflow,
  subnormal numbers, \<open>NaN\<close> and the sign of zero are left out, none of which the
  classifier can reach from estimates and constants between 0 and 1.
\<close>

datatype double = Double int int

text \<open>The number of binary digits of a natural number.\<close>

fun bits :: "nat \<Rightarrow> nat" where
  "bits n = (if n = 0 then 0 else Suc (bits (n div 2)))"

text \<open>\<open>m / 2 ^ k\<close> rounded to the nearest integer, a tie going to the even one.\<close>

definition roundEven :: "int \<Rightarrow> nat \<Rightarrow> int" where
  "roundEven m k =
     (let q = m div 2 ^ k; r = m mod 2 ^ k
      in if 2 * r < 2 ^ k then q
         else if 2 * r > 2 ^ k then q + 1
         else if even q then q else q + 1)"

definition round53 :: "int \<Rightarrow> int \<Rightarrow> double" where
  "round53 m e = (let k = bits (nat \<bar>m\<bar>) - 53 in Double (roundEven m k) (e + int k))"

fun dmul :: "double \<Rightarrow> double \<Rightarrow> double" where
  "dmul (Double m1 e1) (Double m2 e2) = round53 (m1 * m2) (e1 + e2)"

fun dadd :: "double \<Rightarrow> double \<Rightarrow> double" where
  "dadd (Double m1 e1) (Double m2 e2) =
     (let e = min e1 e2
      in round53 (m1 * 2 ^ nat (e1 - e) + m2 * 2 ^ nat (e2 - e)) e)"

fun dless :: "double \<Rightarrow> double \<Rightarrow> bool" where
  "dless (Double m1 e1) (Double m2 e2) =
     (let e = min e1 e2 in m1 * 2 ^ nat (e1 - e) < m2 * 2 ^ nat (e2 - e))"

fun dle :: "double \<Rightarrow> double \<Rightarrow> bool" where
  "dle (Double m1 e1) (Double m2 e2) =
     (let e = min e1 e2 in m1 * 2 ^ nat (e1 - e) \<le> m2 * 2 ^ nat (e2 - e))"

text \<open>\<open>Math.min\<close> on two numbers.\<close>

definition dmin :: "double \<Rightarrow> double \<Rightarrow> double" where
  "dmin a b = (if dless b a then b else a)"

text \<open>
  The double that a decimal literal \<open>p / q\<close> denotes: the quotient to at least 55 bits,
  with one more bit that says whether the division left a remainder, rounded to 53 bits.
\<close>

definition literal :: "nat \<Rightarrow> nat \<Rightarrow> double" where
  "literal p q =
     (let s = 54 + bits q;
          n = (p * 2 ^ s) div q;
          sticky = (if (p * 2 ^ s) mod q = 0 then 0 else 1)
      in round53 (int (2 * n + sticky)) (- int (s + 1)))"

fun valueOf :: "double \<Rightarrow> real" where
  "valueOf (Double m e) =
     (if 0 \<le> e then of_int m * 2 ^ nat e else of_int m / 2 ^ nat (- e))"

subsection \<open>SimpleReceiptDetector in double precision\<close>

text \<open>
  The detector once more, statement by statement, with every \<open>number\<close> a double and every
  decimal constant the double it denotes. Names carry a \<open>D\<close>.
\<close>

record FeaturesD =
  brightnessD :: double
  textDensityD :: double
  hasStandardFormatD :: bool
  hasHandwritingD :: bool
  hasFadingD :: bool

record ReceiptClassificationD =
  isSimpleD :: bool
  confidenceD :: double
  reasonD :: "string option"
  featuresD :: "FeaturesD option"

record DetectorConfigD =
  brightnessThresholdD :: double
  textDensityThresholdD :: double
  minConfidenceD :: double

definition defaultDetectorD :: DetectorConfigD where
  "defaultDetectorD =
     \<lparr>brightnessThresholdD = literal 6 10,
      textDensityThresholdD = literal 4 10,
      minConfidenceD = literal 85 100\<rparr>"

definition extractFeaturesD :: "string \<Rightarrow> FeaturesD" where
  "extractFeaturesD img =
     (let imageName =
            (case js_split CHR ''-'' img of
               _ # name # _ \<Rightarrow> toLowerCase name
             | _ \<Rightarrow> []);
          known = (js_includes imageName ''7eleven'' \<or> js_includes imageName ''tesco'');
          poor = (js_includes imageName ''handwritten'' \<or> js_includes imageName ''faded'')
      in \<lparr>brightnessD =
            (if known then literal 85 100 else if poor then literal 4 10 else literal 7 10),
          textDensityD = literal 7 10,
          hasStandardFormatD = known,
          hasHandwritingD = js_includes imageName ''handwritten'',
          hasFadingD = js_includes imageName ''faded''\<rparr>)"

definition evaluateSimplicityD :: "DetectorConfigD \<Rightarrow> FeaturesD option \<Rightarrow> bool" where
  "evaluateSimplicityD cfg fo =
     (case fo of
        None \<Rightarrow> False
      | Some f \<Rightarrow>
          dless (brightnessThresholdD cfg) (brightnessD f)
          \<and> hasStandardFormatD f
          \<and> \<not> hasHandwritingD f
          \<and> \<not> hasFadingD f)"

definition calculateConfidenceD :: "FeaturesD option \<Rightarrow> double" where
  "calculateConfidenceD fo =
     (case fo of
        None \<Rightarrow> Double 0 0
      | Some f \<Rightarrow>
          (let c0 = Double 0 0;
               c1 = dadd c0 (dmul (brightnessD f) (literal 4 10));
               c2 = dadd c1 (dmul (textDensityD f) (literal 3 10));
               c3 = dadd c2 (dmul (if hasStandardFormatD f then literal 1 1 else Double 0 0)
                                  (literal 3 10));
               c4 = (if hasHandwritingD f then dmul c3 (literal 5 10) else c3);
               c5 = (if hasFadingD f then dmul c4 (literal 7 10) else c4)
           in dmin c5 (literal 1 1)))"

definition generateReasonD :: "DetectorConfigD \<Rightarrow> FeaturesD option \<Rightarrow> bool \<Rightarrow> string" where
  "generateReasonD cfg fo simple =
     (case fo of
        None \<Rightarrow> ''No features detected''
      | Some f \<Rightarrow>
          if simple then ''Clear, standard format receipt - suitable for Groq parsing''
          else
            (let reasons =
                   (if dless (brightnessD f) (brightnessThresholdD cfg)
                    then [''low brightness''] else [])
                   @ (if \<not> hasStandardFormatD f then [''non-standard format''] else [])
                   @ (if hasHandwritingD f then [''handwritten''] else [])
                   @ (if hasFadingD f then [''faded text''] else [])
             in ''Complex receipt ('' @ join '', '' reasons @ '') - using Claude Vision''))"

definition classifyD :: "DetectorConfigD \<Rightarrow> string \<Rightarrow> ReceiptClassificationD" where
  "classifyD cfg img =
     (let f = extractFeaturesD img;
          simple = evaluateSimplicityD cfg (Some f);
          conf = calculateConfidenceD (Some f)
      in \<lparr>isSimpleD = simple,
          confidenceD = conf,
          reasonD = Some (generateReasonD cfg (Some f) simple),
          featuresD = Some f\<rparr>)"

text \<open>Scenario A with its estimates as the doubles that \<open>0.85\<close> and \<open>0.7\<close> denote.\<close>

definition scenarioAD :: FeaturesD where
  "scenarioAD =
     \<lparr>brightnessD = literal 85 100, textDensityD = literal 7 10,
      hasStandardFormatD = True, hasHandwritingD = False, hasFadingD = False\<rparr>"

section \<open>The classifier\<close>

lemma calculateConfidence_Some:
  "calculateConfidence (Some f) = min (penalised f) 1"
  by (simp add: calculateConfidence_def penalised_def weightedSum_def Let_def)

lemma weightedSum_bounds:
  assumes "estimatesInRange f"
  shows "0 \<le> weightedSum f" and "weightedSum f \<le> 1"
proof -
  from assms have b: "0 \<le> brightness f" "brightness f \<le> 1"
    and t: "0 \<le> textDensity f" "textDensity f \<le> 1"
    by (simp_all add: estimatesInRange_def)
  show "0 \<le> weightedSum f"
    using b(1) t(1) by (simp add: weightedSum_def)
  show "weightedSum f \<le> 1"
    using b(2) t(2) by (simp add: weightedSum_def)
qed

lemma penalised_bounds:
  assumes "estimatesInRange f"
  shows "0 \<le> penalised f" and "penalised f \<le> 1"
proof -
  note w = weightedSum_bounds [OF assms]
  show "0 \<le> penalised f"
    using w(1) by (simp add: penalised_def)
  have "penalised f \<le> weightedSum f"
    using w(1) by (simp add: penalised_def)
  with w(2) show "penalised f \<le> 1"
    by simp
qed

lemma verdict_confidence:
  "ReceiptClassification.confidence (verdict det f) = calculateConfidence (Some f)"
  by (simp add: verdict_def Let_def)

lemma verdict_isSimple:
  "isSimple (verdict det f) = evaluateSimplicity det (Some f)"
  by (simp add: verdict_def Let_def)

lemma defaultDetector_threshold:
  "brightnessThreshold (SimpleReceiptDetector.config defaultDetector) = 0.6"
  by (simp add: defaultDetector_def newSimpleReceiptDetector_def noDetectorOverrides_def
      orDefault_def)

lemma scenarioA_example:
  "extractFeatures ''mock-7eleven-receipt'' = scenarioA"
  by (simp add: extractFeatures_def toLowerCase_def lowerChar_def scenarioA_def)

lemma scenarioA_verdict:
  "isSimple (verdict defaultDetector scenarioA)"
  "ReceiptClassification.confidence (verdict defaultDetector scenarioA) = 0.85"
proof -
  have p: "penalised scenarioA = 0.85"
    by (simp add: penalised_def weightedSum_def scenarioA_def)
  show "isSimple (verdict defaultDetector scenarioA)"
    by (simp add: verdict_isSimple evaluateSimplicity_def defaultDetector_threshold)
       (simp add: scenarioA_def)
  show "ReceiptClassification.confidence (verdict defaultDetector scenarioA) = 0.85"
    by (simp add: verdict_confidence calculateConfidence_Some p)
qed

lemma complexInput_features:
  "extractFeatures ''mock-handwritten-receipt'' =
     \<lparr>brightness = 0.4, textDensity = 0.7, hasStandardFormat = False,
      hasHandwriting = True, hasFading = False\<rparr>"
  by (simp add: extractFeatures_def toLowerCase_def lowerChar_def)

text \<open>
  C6. The confidence of a verdict is the weighted sum (brightness 40%, text density 30%,
  layout match 30%), halved for handwriting and multiplied by 0.7 for fading, and capped
  at 1. On a feature snapshot whose two estimates lie in \<open>[0,1]\<close>, as the data model has
  them, this is the penalised weighted sum clamped to \<open>[0,1]\<close>, and it lies in \<open>[0,1]\<close>.
\<close>

theorem confidence_weighted_clamped:
  "ReceiptClassification.confidence (verdict det f) = min (penalised f) 1
   \<and> (estimatesInRange f \<longrightarrow>
        ReceiptClassification.confidence (verdict det f) = clamp01 (penalised f)
        \<and> 0 \<le> ReceiptClassification.confidence (verdict det f)
        \<and> ReceiptClassification.confidence (verdict det f) \<le> 1)"
proof (intro conjI impI)
  show c: "ReceiptClassification.confidence (verdict det f) = min (penalised f) 1"
    by (simp add: verdict_confidence calculateConfidence_Some)
  assume r: "estimatesInRange f"
  note p = penalised_bounds [OF r]
  from p show "ReceiptClassification.confidence (verdict det f) = clamp01 (penalised f)"
    by (simp add: c clamp01_def)
  from p show "0 \<le> ReceiptClassification.confidence (verdict det f)"
    by (simp add: c)
  from p show "ReceiptClassification.confidence (verdict det f) \<le> 1"
    by (simp add: c)
qed

theorem confidence_weighted_clamped_witness:
  "estimatesInRange fadedNote
   \<and> ReceiptClassification.confidence (verdict defaultDetector fadedNote) = 0.1295
   \<and> clamp01 (penalised fadedNote) = 0.1295"
proof -
  have r: "estimatesInRange fadedNote"
    by (simp add: estimatesInRange_def fadedNote_def)
  have p: "penalised fadedNote = 0.1295"
    by (simp add: penalised_def weightedSum_def fadedNote_def)
  have "clamp01 (penalised fadedNote) = 0.1295"
    unfolding p by (simp add: clamp01_def)
  with r confidence_weighted_clamped [of defaultDetector fadedNote] show ?thesis
    by simp
qed

text \<open>
  C7. A verdict is simple exactly when the brightness exceeds the configured brightness
  threshold, the standard-format flag is set and neither the handwriting nor the fading
  flag is set; the threshold of a detector built without overrides is 0.6.
\<close>

theorem isSimple_iff:
  "isSimple (verdict det f) =
     (brightness f > brightnessThreshold (SimpleReceiptDetector.config det)
      \<and> hasStandardFormat f \<and> \<not> hasHandwriting f \<and> \<not> hasFading f)
   \<and> brightnessThreshold
        (SimpleReceiptDetector.config (newSimpleReceiptDetector noDetectorOverrides)) = 0.6"
  by (simp add: verdict_isSimple evaluateSimplicity_def newSimpleReceiptDetector_def
      noDetectorOverrides_def orDefault_def)

theorem isSimple_iff_witness:
  "isSimple (verdict defaultDetector scenarioA)
   \<and> \<not> isSimple (verdict defaultDetector fadedNote)"
  using isSimple_iff [of defaultDetector scenarioA] isSimple_iff [of defaultDetector fadedNote]
  by (simp add: defaultDetector_threshold scenarioA_def fadedNote_def)




section \<open>The metrics accumulator\<close>

lemma updateMetrics_frame:
  "attempts (updateMetrics s) = attempts s"
  "config (updateMetrics s) = config s"
  "detector (updateMetrics s) = detector s"
  "totalReceipts (metrics (updateMetrics s)) = totalReceipts (metrics s)"
  "simpleCount (metrics (updateMetrics s)) = simpleCount (metrics s)"
  "complexCount (metrics (updateMetrics s)) = complexCount (metrics s)"
  "totalCost (metrics (updateMetrics s)) = totalCost (metrics s)"
  "claudeFallbackRate (metrics (updateMetrics s)) = claudeFallbackRate (metrics s)"
  by (simp_all add: updateMetrics_def Let_def)

lemma recordAttempt_frame:
  "config (recordAttempt a s) = config s"
  "detector (recordAttempt a s) = detector s"
  "simpleCount (metrics (recordAttempt a s)) = simpleCount (metrics s)"
  "complexCount (metrics (recordAttempt a s)) = complexCount (metrics s)"
  "claudeFallbackRate (metrics (recordAttempt a s)) = claudeFallbackRate (metrics s)"
  by (simp_all add: recordAttempt_def updateMetrics_frame Let_def)

lemma recordAttempt_on:
  assumes "enableMetrics (config s)"
  shows "attempts (recordAttempt a s) = attempts s @ [a]"
    and "totalReceipts (metrics (recordAttempt a s)) = totalReceipts (metrics s) + 1"
    and "totalCost (metrics (recordAttempt a s)) = totalCost (metrics s) + cost a"
  using assms by (simp_all add: recordAttempt_def updateMetrics_frame Let_def)

lemma recordAttempt_off:
  "\<not> enableMetrics (config s) \<Longrightarrow> recordAttempt a s = s"
  by (simp add: recordAttempt_def)

lemma js_div_isNum:
  "b \<noteq> 0 \<Longrightarrow> isNum (js_div a b)"
  by (simp add: js_div_def isNum_def)

lemma updateMetrics_rates_isNum:
  "isNum (groqSuccessRate (metrics (updateMetrics s)))"
  "isNum (avgCostPerReceipt (metrics (updateMetrics s)))"
  "isNum (manualReviewRate (metrics (updateMetrics s)))"
  by (simp_all add: updateMetrics_def Let_def js_div_isNum) (simp_all add: isNum_def)

lemma updateMetrics_empty:
  assumes "attempts s = []" and "totalReceipts (metrics s) = 0"
  shows "groqSuccessRate (metrics (updateMetrics s)) = Num 0"
    and "avgCostPerReceipt (metrics (updateMetrics s)) = Num 0"
    and "manualReviewRate (metrics (updateMetrics s)) = Num 0"
  using assms by (simp_all add: updateMetrics_def Let_def)

lemma router_initial:
  "detector (newHybridOcrStrategy c) = defaultDetector"
  "metrics (newHybridOcrStrategy c) = initMetrics"
  "attempts (newHybridOcrStrategy c) = []"
  by (simp_all add: newHybridOcrStrategy_def defaultDetector_def)

lemma router_configs:
  "config freshRouter = \<lparr>simpleConfidenceThreshold = 0.85, enableFallback = True,
      maxGroqRetries = 1, enableMetrics = True\<rparr>"
  "config metricsOffRouter = \<lparr>simpleConfidenceThreshold = 0.85, enableFallback = True,
      maxGroqRetries = 1, enableMetrics = False\<rparr>"
  "config fallbackOffRouter = \<lparr>simpleConfidenceThreshold = 0.85, enableFallback = False,
      maxGroqRetries = 1, enableMetrics = True\<rparr>"
  "config bareRouter = \<lparr>simpleConfidenceThreshold = 0.85, enableFallback = False,
      maxGroqRetries = 1, enableMetrics = False\<rparr>"
  by (simp_all add: freshRouter_def metricsOffRouter_def fallbackOffRouter_def bareRouter_def
      newHybridOcrStrategy_def noOverrides_def orDefault_def)

lemma sample_routers:
  "detector freshRouter = defaultDetector" "metrics freshRouter = initMetrics"
  "attempts freshRouter = []"
  "detector metricsOffRouter = defaultDetector" "metrics metricsOffRouter = initMetrics"
  "attempts metricsOffRouter = []"
  "detector fallbackOffRouter = defaultDetector" "metrics fallbackOffRouter = initMetrics"
  "attempts fallbackOffRouter = []"
  "detector bareRouter = defaultDetector" "metrics bareRouter = initMetrics"
  "attempts bareRouter = []"
  by (simp_all add: freshRouter_def metricsOffRouter_def fallbackOffRouter_def bareRouter_def
      router_initial)

text \<open>
  C9. The metrics of a router that was just constructed (with any configuration) or just
  reset (from any state) have no recorded attempts, \<open>totalReceipts = 0\<close> and the three
  rates \<open>groqSuccessRate\<close>, \<open>avgCostPerReceipt\<close> and \<open>manualReviewRate\<close> equal to the
  number 0. Recomputing the rates on such a router gives 0 again, and recomputing them on
  any router gives a finite number, never \<open>NaN\<close> or an infinity: each division is guarded.
\<close>

theorem fresh_rates_zero:
  "groqSuccessRate (getMetrics (newHybridOcrStrategy c)) = Num 0
   \<and> avgCostPerReceipt (getMetrics (newHybridOcrStrategy c)) = Num 0
   \<and> manualReviewRate (getMetrics (newHybridOcrStrategy c)) = Num 0
   \<and> totalReceipts (getMetrics (newHybridOcrStrategy c)) = 0
   \<and> getAttempts (newHybridOcrStrategy c) = []
   \<and> groqSuccessRate (getMetrics (resetMetrics s)) = Num 0
   \<and> avgCostPerReceipt (getMetrics (resetMetrics s)) = Num 0
   \<and> manualReviewRate (getMetrics (resetMetrics s)) = Num 0
   \<and> totalReceipts (getMetrics (resetMetrics s)) = 0
   \<and> getAttempts (resetMetrics s) = []
   \<and> groqSuccessRate (getMetrics (updateMetrics (resetMetrics s))) = Num 0
   \<and> avgCostPerReceipt (getMetrics (updateMetrics (resetMetrics s))) = Num 0
   \<and> manualReviewRate (getMetrics (updateMetrics (resetMetrics s))) = Num 0
   \<and> isNum (groqSuccessRate (getMetrics (updateMetrics s)))
   \<and> isNum (avgCostPerReceipt (getMetrics (updateMetrics s)))
   \<and> isNum (manualReviewRate (getMetrics (updateMetrics s)))"
proof -
  have r: "attempts (resetMetrics s) = []" "totalReceipts (metrics (resetMetrics s)) = 0"
    by (simp_all add: resetMetrics_def initMetrics_def)
  have "metrics (newHybridOcrStrategy c) = initMetrics" "metrics (resetMetrics s) = initMetrics"
    by (simp_all add: router_initial resetMetrics_def)
  then show ?thesis
    using updateMetrics_empty [OF r] updateMetrics_rates_isNum [of s] r
    by (simp add: getMetrics_def getAttempts_def router_initial initMetrics_def)
qed

theorem fresh_rates_zero_witness:
  "getMetrics (resetMetrics (self (extractReceipt bothUp simpleInput freshRouter))) = initMetrics
   \<and> manualReviewRate
        (getMetrics (resetMetrics (self (extractReceipt bothUp simpleInput freshRouter)))) = Num 0
   \<and> avgCostPerReceipt (getMetrics freshRouter) = Num 0"
  using fresh_rates_zero [of noOverrides "self (extractReceipt bothUp simpleInput freshRouter)"]
  by (simp add: freshRouter_def getMetrics_def resetMetrics_def)

section \<open>The router\<close>

subsection \<open>The sample requests\<close>

lemma simpleInput_routed:
  assumes "detector s = defaultDetector" and "simpleConfidenceThreshold (config s) = 0.85"
  shows "routesToGroq s (classifyReceipt s (imageBase64 simpleInput))"
  using assms
  by (simp add: routesToGroq_def classifyReceipt_def simpleInput_def classify_def
      scenarioA_example scenarioA_verdict)

lemma complexInput_not_routed:
  "\<not> routesToGroq s (classifyReceipt s (imageBase64 complexInput))"
  by (simp add: routesToGroq_def classifyReceipt_def complexInput_def classify_def
      verdict_isSimple evaluateSimplicity_def complexInput_features)

subsection \<open>The two paths\<close>





text \<open>
  C1, as the specification has it, holds for every request that is routed to Groq, whose
  Groq call fails, with fallback enabled and a Claude call that succeeds. On a router
  constructed with \<open>enableMetrics: false\<close> such a request returns Claude's result and
  appends nothing to the history.
\<close>

theorem fallback_records_two_counterexample:
  "routesToGroq metricsOffRouter (classifyReceipt metricsOffRouter (imageBase64 simpleInput))
   \<and> parseReceiptText groqDown (extractRawText (imageBase64 simpleInput))
         (correlationId simpleInput) = Throws (Error ''Groq API error: 503'')
   \<and> enableFallback (config metricsOffRouter)
   \<and> extractReceiptFromImage groqDown simpleInput = Resolves claudeResult 500
   \<and> outcome (extractReceipt groqDown simpleInput metricsOffRouter) = Inr claudeResult
   \<and> attempts metricsOffRouter = []
   \<and> attempts (self (extractReceipt groqDown simpleInput metricsOffRouter)) = []"
proof -
  have r: "routesToGroq metricsOffRouter
             (classifyReceipt metricsOffRouter (imageBase64 simpleInput))"
    by (rule simpleInput_routed) (simp_all add: router_configs sample_routers)
  have off: "\<not> enableMetrics (config metricsOffRouter)"
    by (simp add: router_configs)
  show ?thesis
    using r off
    by (simp add: extractReceipt_def processSimpleReceipt_def processComplexReceipt_def
        Let_def recordAttempt_off recordAttempt_frame groqDown_def)
       (simp add: router_configs sample_routers)
qed

text \<open>
  C1, amended. On a router that tracks metrics (\<open>enableMetrics\<close>, the default) and has
  fallback enabled, a request that is routed to Groq, whose Groq call throws and whose
  Claude call resolves returns Claude's result and appends exactly two attempts to the
  history: first the failed Groq attempt, then the successful Claude attempt that carries
  the result. The adapters called are Groq, then Claude.
\<close>

theorem fallback_records_two:
  assumes m: "enableMetrics (config s)"
    and f: "enableFallback (config s)"
    and r: "routesToGroq s (classifyReceipt s (imageBase64 input))"
    and g: "parseReceiptText ad (extractRawText (imageBase64 input)) (correlationId input)
            = Throws e"
    and c: "extractReceiptFromImage ad input = Resolves res ms"
  shows "outcome (extractReceipt ad input s) = Inr res
       \<and> attempts (self (extractReceipt ad input s))
           = attempts s @ [groqFailed e, claudeSucceeded res ms]
       \<and> calls (extractReceipt ad input s) = [Groq, Claude]"
  using assms
  by (simp add: extractReceipt_def processSimpleReceipt_def processComplexReceipt_def Let_def
      recordAttempt_frame recordAttempt_on groqFailed_def claudeSucceeded_def)

theorem fallback_records_two_witness:
  "enableMetrics (config freshRouter) \<and> enableFallback (config freshRouter)
   \<and> routesToGroq freshRouter (classifyReceipt freshRouter (imageBase64 simpleInput))
   \<and> outcome (extractReceipt groqDown simpleInput freshRouter) = Inr claudeResult
   \<and> attempts (self (extractReceipt groqDown simpleInput freshRouter))
       = [groqFailed (Error ''Groq API error: 503''), claudeSucceeded claudeResult 500]
   \<and> calls (extractReceipt groqDown simpleInput freshRouter) = [Groq, Claude]"
proof -
  have r: "routesToGroq freshRouter (classifyReceipt freshRouter (imageBase64 simpleInput))"
    by (rule simpleInput_routed) (simp_all add: router_configs sample_routers)
  have m: "enableMetrics (config freshRouter)" and f: "enableFallback (config freshRouter)"
    by (simp_all add: router_configs)
  have g: "parseReceiptText groqDown (extractRawText (imageBase64 simpleInput))
             (correlationId simpleInput) = Throws (Error ''Groq API error: 503'')"
    by (simp add: groqDown_def)
  have c: "extractReceiptFromImage groqDown simpleInput = Resolves claudeResult 500"
    by (simp add: groqDown_def)
  from fallback_records_two [OF m f r g c] r m f show ?thesis
    by (simp add: sample_routers)
qed

text \<open>
  C5, as the specification has it, holds for every request that is routed to Groq with
  fallback disabled and a failing Groq call. On a router constructed with fallback and
  metrics both disabled such a request fails with Groq's error and appends nothing to
  the history.
\<close>

theorem no_fallback_records_one_counterexample:
  "routesToGroq bareRouter (classifyReceipt bareRouter (imageBase64 simpleInput))
   \<and> \<not> enableFallback (config bareRouter)
   \<and> parseReceiptText bothDown (extractRawText (imageBase64 simpleInput))
         (correlationId simpleInput) = Throws (Error ''Groq API error: 503'')
   \<and> outcome (extractReceipt bothDown simpleInput bareRouter)
         = Inl (Error ''Groq API error: 503'')
   \<and> attempts bareRouter = []
   \<and> attempts (self (extractReceipt bothDown simpleInput bareRouter)) = []"
proof -
  have r: "routesToGroq bareRouter (classifyReceipt bareRouter (imageBase64 simpleInput))"
    by (rule simpleInput_routed) (simp_all add: router_configs sample_routers)
  have off: "\<not> enableMetrics (config bareRouter)"
    by (simp add: router_configs)
  show ?thesis
    using r off
    by (simp add: extractReceipt_def processSimpleReceipt_def
        Let_def recordAttempt_off recordAttempt_frame bothDown_def)
       (simp add: router_configs sample_routers)
qed

text \<open>
  C5, amended. On a router that tracks metrics (\<open>enableMetrics\<close>, the default) and has
  fallback disabled, a request that is routed to Groq and whose Groq call throws fails
  with the error that Groq threw, appends exactly one attempt to the history, the failed
  Groq attempt, and never calls the Claude adapter.
\<close>

theorem no_fallback_records_one:
  assumes m: "enableMetrics (config s)"
    and f: "\<not> enableFallback (config s)"
    and r: "routesToGroq s (classifyReceipt s (imageBase64 input))"
    and g: "parseReceiptText ad (extractRawText (imageBase64 input)) (correlationId input)
            = Throws e"
  shows "outcome (extractReceipt ad input s) = Inl e
       \<and> attempts (self (extractReceipt ad input s)) = attempts s @ [groqFailed e]
       \<and> calls (extractReceipt ad input s) = [Groq]
       \<and> Claude \<notin> set (calls (extractReceipt ad input s))"
  using assms
  by (simp add: extractReceipt_def processSimpleReceipt_def Let_def
      recordAttempt_frame recordAttempt_on groqFailed_def)

theorem no_fallback_records_one_witness:
  "enableMetrics (config fallbackOffRouter) \<and> \<not> enableFallback (config fallbackOffRouter)
   \<and> routesToGroq fallbackOffRouter
         (classifyReceipt fallbackOffRouter (imageBase64 simpleInput))
   \<and> outcome (extractReceipt groqDown simpleInput fallbackOffRouter)
       = Inl (Error ''Groq API error: 503'')
   \<and> attempts (self (extractReceipt groqDown simpleInput fallbackOffRouter))
       = [groqFailed (Error ''Groq API error: 503'')]
   \<and> calls (extractReceipt groqDown simpleInput fallbackOffRouter) = [Groq]"
proof -
  have r: "routesToGroq fallbackOffRouter
             (classifyReceipt fallbackOffRouter (imageBase64 simpleInput))"
    by (rule simpleInput_routed) (simp_all add: router_configs sample_routers)
  have m: "enableMetrics (config fallbackOffRouter)"
    and f: "\<not> enableFallback (config fallbackOffRouter)"
    by (simp_all add: router_configs)
  have g: "parseReceiptText groqDown (extractRawText (imageBase64 simpleInput))
             (correlationId simpleInput) = Throws (Error ''Groq API error: 503'')"
    by (simp add: groqDown_def)
  from no_fallback_records_one [OF m f r g] r m f show ?thesis
    by (simp add: sample_routers)
qed

text \<open>
  C2 says that a request whose Claude call fails still records a failed attempt before
  the error reaches the caller. \<open>processComplexReceipt\<close> has no handler around the
  Claude call. With the default configuration, the request \<open>complexInput\<close> is routed to
  Claude directly; when the Claude call throws, the error reaches the caller, the history
  stays empty and the only metric that changed is \<open>complexCount\<close>. The request
  \<open>simpleInput\<close> with both adapters failing falls back to Claude and leaves one attempt,
  the failed Groq attempt, not two.
\<close>

theorem precise_failure_unrecorded:
  "\<not> routesToGroq freshRouter (classifyReceipt freshRouter (imageBase64 complexInput))
   \<and> outcome (extractReceipt claudeDown complexInput freshRouter)
       = Inl (Error ''Claude API error: 529'')
   \<and> calls (extractReceipt claudeDown complexInput freshRouter) = [Claude]
   \<and> getAttempts (self (extractReceipt claudeDown complexInput freshRouter)) = []
   \<and> getMetrics (self (extractReceipt claudeDown complexInput freshRouter))
       = initMetrics\<lparr>complexCount := 1\<rparr>
   \<and> outcome (extractReceipt bothDown simpleInput freshRouter)
       = Inl (Error ''Claude API error: 529'')
   \<and> calls (extractReceipt bothDown simpleInput freshRouter) = [Groq, Claude]
   \<and> getAttempts (self (extractReceipt bothDown simpleInput freshRouter))
       = [groqFailed (Error ''Groq API error: 503'')]"
proof -
  have r: "routesToGroq freshRouter (classifyReceipt freshRouter (imageBase64 simpleInput))"
    by (rule simpleInput_routed) (simp_all add: router_configs sample_routers)
  have n: "\<not> routesToGroq freshRouter (classifyReceipt freshRouter (imageBase64 complexInput))"
    by (rule complexInput_not_routed)
  have m: "enableMetrics (config freshRouter)" and f: "enableFallback (config freshRouter)"
    by (simp_all add: router_configs)
  have a: "outcome (extractReceipt claudeDown complexInput freshRouter)
             = Inl (Error ''Claude API error: 529'')
           \<and> calls (extractReceipt claudeDown complexInput freshRouter) = [Claude]
           \<and> getAttempts (self (extractReceipt claudeDown complexInput freshRouter)) = []
           \<and> getMetrics (self (extractReceipt claudeDown complexInput freshRouter))
               = initMetrics\<lparr>complexCount := 1\<rparr>"
    using n
    by (simp add: extractReceipt_def processComplexReceipt_def Let_def claudeDown_def
        getAttempts_def getMetrics_def sample_routers initMetrics_def)
  have b: "outcome (extractReceipt bothDown simpleInput freshRouter)
             = Inl (Error ''Claude API error: 529'')
           \<and> calls (extractReceipt bothDown simpleInput freshRouter) = [Groq, Claude]
           \<and> getAttempts (self (extractReceipt bothDown simpleInput freshRouter))
               = [groqFailed (Error ''Groq API error: 503'')]"
    using r m f
    by (simp add: extractReceipt_def processSimpleReceipt_def processComplexReceipt_def Let_def
        bothDown_def getAttempts_def recordAttempt_frame recordAttempt_on groqFailed_def
        sample_routers)
  from n a b show ?thesis
    by simp
qed

text \<open>
  C4 says that \<open>simpleCount + complexCount = totalReceipts\<close> always holds and that
  \<open>totalReceipts\<close> counts requests, a fallback not being counted a second time.
  \<open>recordAttempt\<close> increments \<open>totalReceipts\<close> for every attempt. With the default
  configuration, one request that falls back to Claude leaves \<open>totalReceipts = 2\<close> (and an
  average cost per receipt of 0.25 for a request that cost 0.50); one request that is
  routed to Claude and fails leaves \<open>complexCount = 1\<close> and \<open>totalReceipts = 0\<close>.
\<close>

theorem total_counts_attempts:
  "totalReceipts (getMetrics (extractAll [(groqDown, simpleInput)] freshRouter)) = 2
   \<and> simpleCount (getMetrics (extractAll [(groqDown, simpleInput)] freshRouter)) = 1
   \<and> complexCount (getMetrics (extractAll [(groqDown, simpleInput)] freshRouter)) = 1
   \<and> totalCost (getMetrics (extractAll [(groqDown, simpleInput)] freshRouter)) = 0.50
   \<and> avgCostPerReceipt (getMetrics (extractAll [(groqDown, simpleInput)] freshRouter))
       = Num 0.25
   \<and> totalReceipts (getMetrics (extractAll [(claudeDown, complexInput)] freshRouter)) = 0
   \<and> simpleCount (getMetrics (extractAll [(claudeDown, complexInput)] freshRouter)) = 0
   \<and> complexCount (getMetrics (extractAll [(claudeDown, complexInput)] freshRouter)) = 1"
proof -
  have r: "routesToGroq freshRouter (classifyReceipt freshRouter (imageBase64 simpleInput))"
    by (rule simpleInput_routed) (simp_all add: router_configs sample_routers)
  have n: "\<not> routesToGroq freshRouter (classifyReceipt freshRouter (imageBase64 complexInput))"
    by (rule complexInput_not_routed)
  have m: "enableMetrics (config freshRouter)" and f: "enableFallback (config freshRouter)"
    by (simp_all add: router_configs)
  have a: "metrics (self (extractReceipt claudeDown complexInput freshRouter))
           = initMetrics\<lparr>complexCount := 1\<rparr>"
    using n
    by (simp add: extractReceipt_def processComplexReceipt_def Let_def claudeDown_def
        sample_routers initMetrics_def)
  have b: "self (extractReceipt groqDown simpleInput freshRouter)
           = recordAttempt (claudeSucceeded claudeResult 500)
               (let s2 = recordAttempt (groqFailed (Error ''Groq API error: 503''))
                           (freshRouter\<lparr>metrics := initMetrics\<lparr>simpleCount := 1\<rparr>\<rparr>)
                in s2\<lparr>metrics := (metrics s2)
                        \<lparr>claudeFallbackRate := claudeFallbackRate (metrics s2) + 1,
                         complexCount := complexCount (metrics s2) + 1\<rparr>\<rparr>)"
    using r f
    by (simp add: extractReceipt_def processSimpleReceipt_def processComplexReceipt_def Let_def
        groqDown_def sample_routers initMetrics_def recordAttempt_frame groqFailed_def
        claudeSucceeded_def)
  have c: "metrics (self (extractReceipt groqDown simpleInput freshRouter))
           = \<lparr>totalReceipts = 2, simpleCount = 1, complexCount = 1, groqSuccessRate = Num 0,
              claudeFallbackRate = 1, totalCost = 0.5, avgCostPerReceipt = Num 0.25,
              savingsVsClaudeOnly = 0.5, manualReviewRate = Num 0\<rparr>"
    unfolding b using m
    by (simp add: recordAttempt_def updateMetrics_def Let_def sample_routers initMetrics_def
        groqFailed_def claudeSucceeded_def lowConfidence_def claudeResult_def js_div_def)
  from a c show ?thesis
    by (simp add: getMetrics_def initMetrics_def)
qed

subsection \<open>A router that does not track metrics\<close>

lemma off_complex:
  assumes "\<not> enableMetrics (config s)"
  shows "self (processComplexReceipt ad input c s)
         = s\<lparr>metrics := (metrics s)\<lparr>complexCount := complexCount (metrics s) + 1\<rparr>\<rparr>"
    and "calls (processComplexReceipt ad input c s) = [Claude]"
  using assms
  by (simp_all add: processComplexReceipt_def Let_def recordAttempt_off split: reply.split)

lemma off_simple:
  assumes "\<not> enableMetrics (config s)"
  shows "simpleCount (metrics (self (processSimpleReceipt ad input c s)))
         = simpleCount (metrics s) + 1"
    and "complexCount (metrics (self (processSimpleReceipt ad input c s)))
         = complexCount (metrics s)
           + (if Claude \<in> set (calls (processSimpleReceipt ad input c s)) then 1 else 0)"
  using assms
  by (simp_all add: processSimpleReceipt_def Let_def recordAttempt_off off_complex
      split: reply.split)

lemma off_simple_idle:
  assumes "idle s"
  shows "idle (self (processSimpleReceipt ad input c s))"
  using assms
  by (simp add: idle_def processSimpleReceipt_def Let_def recordAttempt_off off_complex
      split: reply.split)

lemma off_complex_idle:
  assumes "idle s"
  shows "idle (self (processComplexReceipt ad input c s))"
  using assms by (simp add: idle_def off_complex)

lemma off_extract_idle:
  assumes "idle s"
  shows "idle (self (extractReceipt ad input s))"
  using assms by (simp add: extractReceipt_def Let_def off_simple_idle off_complex_idle)

lemma off_extractAll_idle:
  "idle s \<Longrightarrow> idle (extractAll reqs s)"
proof (induction reqs arbitrary: s)
  case Nil
  then show ?case by simp
next
  case (Cons r reqs)
  from Cons.prems have "idle (self (extractReceipt (fst r) (snd r) s))"
    by (rule off_extract_idle)
  then show ?case
    by (simp add: Cons.IH)
qed

lemma off_extract_counts:
  assumes "\<not> enableMetrics (config s)"
  shows "simpleCount (metrics (self (extractReceipt ad input s)))
         = simpleCount (metrics s)
           + (if routesToGroq s (classifyReceipt s (imageBase64 input)) then 1 else 0)"
    and "complexCount (metrics (self (extractReceipt ad input s)))
         = complexCount (metrics s)
           + (if Claude \<in> set (calls (extractReceipt ad input s)) then 1 else 0)"
    and "routesToGroq s (classifyReceipt s (imageBase64 input))
         \<or> Claude \<in> set (calls (extractReceipt ad input s))"
  using assms by (simp_all add: extractReceipt_def Let_def off_simple off_complex)

lemma new_idle:
  assumes "enableMetrics_opt c = Some False"
  shows "idle (newHybridOcrStrategy c)"
  using assms by (simp add: idle_def newHybridOcrStrategy_def initMetrics_def orDefault_def)

text \<open>
  C10. Take a router constructed with \<open>enableMetrics: false\<close>, after any sequence of
  requests, and one more request. Afterwards the attempt history is empty and
  \<open>totalReceipts\<close>, \<open>totalCost\<close>, the savings and the three rates are 0; \<open>simpleCount\<close> has
  grown by one if the request was routed to Groq, \<open>complexCount\<close> has grown by one if the
  Claude adapter was called; and \<open>simpleCount + complexCount\<close> is strictly greater than
  \<open>totalReceipts\<close>.
\<close>

theorem metrics_disabled_counts:
  assumes "enableMetrics_opt c = Some False"
    and "s = extractAll reqs (newHybridOcrStrategy c)"
    and "r = extractReceipt ad input s"
  shows "getAttempts (self r) = []
       \<and> totalReceipts (getMetrics (self r)) = 0
       \<and> totalCost (getMetrics (self r)) = 0
       \<and> groqSuccessRate (getMetrics (self r)) = Num 0
       \<and> avgCostPerReceipt (getMetrics (self r)) = Num 0
       \<and> savingsVsClaudeOnly (getMetrics (self r)) = 0
       \<and> manualReviewRate (getMetrics (self r)) = Num 0
       \<and> simpleCount (getMetrics (self r))
           = simpleCount (getMetrics s)
             + (if routesToGroq s (classifyReceipt s (imageBase64 input)) then 1 else 0)
       \<and> complexCount (getMetrics (self r))
           = complexCount (getMetrics s) + (if Claude \<in> set (calls r) then 1 else 0)
       \<and> simpleCount (getMetrics (self r)) + complexCount (getMetrics (self r))
           > totalReceipts (getMetrics (self r))"
proof -
  have i: "idle s"
    unfolding assms(2) by (rule off_extractAll_idle) (rule new_idle [OF assms(1)])
  then have off: "\<not> enableMetrics (config s)"
    by (simp add: idle_def)
  have j: "idle (self r)"
    unfolding assms(3) using i by (rule off_extract_idle)
  note k = off_extract_counts [OF off, where ad = ad and input = input, folded assms(3)]
  from k(3) have "0 < simpleCount (metrics (self r)) + complexCount (metrics (self r))"
    by (auto simp: k(1) k(2))
  with j k(1) k(2) show ?thesis
    by (simp add: idle_def getMetrics_def getAttempts_def)
qed

theorem metrics_disabled_counts_witness:
  "getAttempts (self (extractReceipt groqDown simpleInput metricsOffRouter)) = []
   \<and> totalReceipts (getMetrics (self (extractReceipt groqDown simpleInput metricsOffRouter))) = 0
   \<and> simpleCount (getMetrics (self (extractReceipt groqDown simpleInput metricsOffRouter))) = 1
   \<and> complexCount (getMetrics (self (extractReceipt groqDown simpleInput metricsOffRouter))) = 1"
proof -
  have o: "enableMetrics_opt (noOverrides\<lparr>enableMetrics_opt := Some False\<rparr>) = Some False"
    by simp
  have s: "metricsOffRouter
           = extractAll [] (newHybridOcrStrategy (noOverrides\<lparr>enableMetrics_opt := Some False\<rparr>))"
    by (simp add: metricsOffRouter_def)
  have r: "routesToGroq metricsOffRouter
             (classifyReceipt metricsOffRouter (imageBase64 simpleInput))"
    by (rule simpleInput_routed) (simp_all add: router_configs sample_routers)
  have c: "calls (extractReceipt groqDown simpleInput metricsOffRouter) = [Groq, Claude]"
    using r
    by (simp add: extractReceipt_def processSimpleReceipt_def processComplexReceipt_def Let_def
        groqDown_def recordAttempt_frame router_configs)
  from metrics_disabled_counts [OF o s refl, of groqDown simpleInput] r c show ?thesis
    by (simp add: getMetrics_def sample_routers initMetrics_def)
qed

end
